theory Spec2Isabelle
  imports Complex_Main
begin

section \<open>Exceptions and matrices\<close>

text \<open>
  The C++ sources signal failure by throwing \<^verbatim>\<open>std::runtime_error\<close> and
  \<^verbatim>\<open>std::invalid_argument\<close> with a message. The matrix library raises
  \<^verbatim>\<open>std::logic_error\<close> on an index outside a matrix; an index outside a
  \<^verbatim>\<open>std::vector\<close> has no defined behaviour, and the model reports it as
  \<open>out_of_range\<close> so that it is a visible branch; likewise the use of an object through
  a pointer cast to a class it does not have is reported as \<open>bad_cast\<close>.
\<close>

datatype exn =
    runtime_error string
  | invalid_argument string
  | logic_error string
  | out_of_range
  | bad_cast

text \<open>
  A dense matrix is stored by columns (one column per point): \<open>n_rows\<close> is the
  dimension, \<open>cols\<close> the list of columns.
\<close>

record 'a Mat =
  n_rows :: nat
  cols :: "'a list list"

definition n_cols :: "'a Mat \<Rightarrow> nat" where
  "n_cols m = length (cols m)"

text \<open>Default construction: the empty \<open>0 \<times> 0\<close> matrix.\<close>

definition empty_Mat :: "'a Mat" where
  "empty_Mat = \<lparr>n_rows = 0, cols = []\<rparr>"

text \<open>
  \<^verbatim>\<open>m.set_size(r, c)\<close> resizes without initialising the memory; \<open>fill i j\<close>
  stands for whatever entry \<open>(i, j)\<close> holds afterwards.
\<close>

definition set_size :: "(nat \<Rightarrow> nat \<Rightarrow> 'a) \<Rightarrow> nat \<Rightarrow> nat \<Rightarrow> 'a Mat" where
  "set_size fill r c = \<lparr>n_rows = r, cols = map (\<lambda>j. map (\<lambda>i. fill i j) [0..<r]) [0..<c]\<rparr>"

text \<open>\<^verbatim>\<open>m.col(j)\<close> read and \<^verbatim>\<open>m.col(j) = v\<close> written, with the library's bounds check.\<close>

definition col :: "'a Mat \<Rightarrow> nat \<Rightarrow> exn + 'a list" where
  "col m j =
     (if j < n_cols m then Inr (cols m ! j)
      else Inl (logic_error ''Mat::col(): index out of bounds''))"

definition set_col :: "'a Mat \<Rightarrow> nat \<Rightarrow> 'a list \<Rightarrow> exn + 'a Mat" where
  "set_col m j v =
     (if j < n_cols m then Inr (m\<lparr>cols := (cols m)[j := v]\<rparr>)
      else Inl (logic_error ''Mat::col(): index out of bounds''))"


text \<open>
  What is left in a variable after \<^verbatim>\<open>std::move(x)\<close> has been handed to a
  constructor or to \<^verbatim>\<open>Train\<close>. A \<^verbatim>\<open>const\<close> object cannot bind to a
  \<^verbatim>\<open>MatType&&\<close> parameter, so the callee copies and \<open>x\<close> keeps its value; a
  non-const matrix is moved from and left empty.
\<close>

datatype constness = Const | NonConst

definition after_move :: "constness \<Rightarrow> 'a Mat \<Rightarrow> 'a Mat" where
  "after_move c m = (case c of Const \<Rightarrow> m | NonConst \<Rightarrow> empty_Mat)"

section \<open>The search engine, as far as the wrappers use it\<close>

text \<open>
  \<^verbatim>\<open>NeighborSearch\<close> and the tree classes are declared in headers that are not part of
  the sources at hand. The wrappers read and write four members of the engine directly
  (\<^verbatim>\<open>Naive()\<close>, \<^verbatim>\<open>SingleMode()\<close>, \<^verbatim>\<open>treeOwner\<close>,
  \<^verbatim>\<open>oldFromNewReferences\<close>); everything else the engine holds is \<open>internals\<close>.
\<close>

record 'e NeighborSearch =
  Naive :: bool
  SingleMode :: bool
  treeOwner :: bool
  oldFromNewReferences :: "nat list"
  internals :: 'e

type_synonym results = "nat Mat \<times> real Mat"

text \<open>
  The engine's member functions, parameters of the model:
  \<^item> \<open>Train_tree\<close> is \<^verbatim>\<open>ns.Train(Tree*)\<close>, \<open>Train_set\<close> is \<^verbatim>\<open>ns.Train(MatType&&)\<close>;
  \<^item> \<open>Search_set\<close> is \<^verbatim>\<open>ns.Search(querySet, k, neighbors, distances)\<close>,
    \<open>Search_tree\<close> is \<^verbatim>\<open>ns.Search(Tree*, k, neighbors, distances, sameSet)\<close>
    (the flag is \<^verbatim>\<open>false\<close> when the call leaves it out),
    \<open>Search_self\<close> is \<^verbatim>\<open>ns.Search(k, neighbors, distances)\<close>; a search may throw
    (\<open>k\<close> larger than the reference set), so each returns an exception or the two
    output matrices;
  \<^item> \<open>ReferenceSet\<close> is the accessor of the same name.
\<close>

record ('tree, 'e) engine_ops =
  Train_tree :: "'e NeighborSearch \<Rightarrow> 'tree \<Rightarrow> 'e NeighborSearch"
  Train_set :: "'e NeighborSearch \<Rightarrow> real Mat \<Rightarrow> 'e NeighborSearch"
  Search_set :: "'e NeighborSearch \<Rightarrow> real Mat \<Rightarrow> nat \<Rightarrow> exn + results"
  Search_tree :: "'e NeighborSearch \<Rightarrow> 'tree \<Rightarrow> nat \<Rightarrow> bool \<Rightarrow> exn + results"
  Search_self :: "'e NeighborSearch \<Rightarrow> nat \<Rightarrow> exn + results"
  ReferenceSet :: "'e NeighborSearch \<Rightarrow> real Mat"

text \<open>
  What \<^verbatim>\<open>NeighborSearchLeaf\<close> needs besides: the engine's constructor
  \<^verbatim>\<open>NeighborSearch(naive, singleMode)\<close> and the tree's constructor
  \<^verbatim>\<open>Tree(data, oldFromNew, leafSize)\<close>, which returns the tree and fills in the
  permutation.
\<close>

record ('tree, 'e) leaf_ops = "('tree, 'e) engine_ops" +
  NeighborSearch_new :: "bool \<Rightarrow> bool \<Rightarrow> 'e NeighborSearch"
  Tree_new :: "real Mat \<Rightarrow> nat \<Rightarrow> 'tree \<times> nat list"

section \<open>NeighborSearchLeaf\<close>

record 'e NeighborSearchLeaf =
  leafSize :: nat
  ns :: "'e NeighborSearch"

definition NeighborSearchLeaf_new ::
  "('tree, 'e) leaf_ops \<Rightarrow> bool \<Rightarrow> bool \<Rightarrow> nat \<Rightarrow> 'e NeighborSearchLeaf" where
  "NeighborSearchLeaf_new ops naive singleMode ls =
     \<lparr>leafSize = ls, ns = NeighborSearch_new ops naive singleMode\<rparr>"

text \<open>
  \<^verbatim>\<open>Train(MatType&& referenceSet)\<close>. The result is the wrapper after the call and
  what is left in the caller's \<^verbatim>\<open>referenceSet\<close>.
\<close>

definition NeighborSearchLeaf_Train ::
  "('tree, 'e) leaf_ops \<Rightarrow> 'e NeighborSearchLeaf \<Rightarrow> real Mat \<Rightarrow> 'e NeighborSearchLeaf \<times> real Mat" where
  "NeighborSearchLeaf_Train ops l referenceSet =
     (if \<not> Naive (ns l) then
        (case Tree_new ops referenceSet (leafSize l) of
          (tree, oldFromNewRef) \<Rightarrow>
            let ns1 = Train_tree ops (ns l) tree;
                ns2 = ns1\<lparr>treeOwner := True\<rparr>;
                ns3 = ns2\<lparr>oldFromNewReferences := oldFromNewRef\<rparr>
            in (l\<lparr>ns := ns3\<rparr>, after_move NonConst referenceSet))
      else (l\<lparr>ns := Train_set ops (ns l) referenceSet\<rparr>, after_move NonConst referenceSet))"

text \<open>
  The loop that unmaps the query points: for \<open>i\<close> in turn, column \<open>i\<close> of the raw output
  goes to column \<open>oldFromNewQueries[i]\<close> of the caller's matrices, neighbors first, then
  distances.
\<close>

fun unmap :: "nat list \<Rightarrow> nat Mat \<Rightarrow> real Mat \<Rightarrow> nat list \<Rightarrow> results \<Rightarrow> exn + results" where
  "unmap oldFromNewQueries neighborsOut distancesOut [] acc = Inr acc"
| "unmap oldFromNewQueries neighborsOut distancesOut (i # is) (neighbors, distances) =
     (if i < length oldFromNewQueries then
        (case col neighborsOut i of
          Inl e \<Rightarrow> Inl e
        | Inr nc \<Rightarrow>
           (case set_col neighbors (oldFromNewQueries ! i) nc of
             Inl e \<Rightarrow> Inl e
           | Inr neighbors' \<Rightarrow>
              (case col distancesOut i of
                Inl e \<Rightarrow> Inl e
              | Inr dc \<Rightarrow>
                 (case set_col distances (oldFromNewQueries ! i) dc of
                   Inl e \<Rightarrow> Inl e
                 | Inr distances' \<Rightarrow>
                     unmap oldFromNewQueries neighborsOut distancesOut is
                       (neighbors', distances')))))
      else Inl out_of_range)"

text \<open>
  \<^verbatim>\<open>Search(const MatType& querySet, k, neighbors, distances)\<close>. \<open>fn\<close> and \<open>fd\<close> are
  the contents \<^verbatim>\<open>set_size\<close> leaves in the caller's two matrices. The result is
  what is left in the caller's \<^verbatim>\<open>querySet\<close>, and the exception or the two output
  matrices.
\<close>

definition NeighborSearchLeaf_Search ::
  "('tree, 'e) leaf_ops \<Rightarrow> (nat \<Rightarrow> nat \<Rightarrow> nat) \<Rightarrow> (nat \<Rightarrow> nat \<Rightarrow> real) \<Rightarrow>
   'e NeighborSearchLeaf \<Rightarrow> real Mat \<Rightarrow> nat \<Rightarrow> real Mat \<times> (exn + results)" where
  "NeighborSearchLeaf_Search ops fn fd l querySet k =
     (if \<not> Naive (ns l) \<and> \<not> SingleMode (ns l) then
        (case Tree_new ops querySet (leafSize l) of
          (queryTree, oldFromNewQueries) \<Rightarrow>
            (after_move Const querySet,
             (case Search_tree ops (ns l) queryTree k False of
               Inl e \<Rightarrow> Inl e
             | Inr (neighborsOut, distancesOut) \<Rightarrow>
                 let distances = set_size fd (n_rows distancesOut) (n_cols distancesOut);
                     neighbors = set_size fn (n_rows neighborsOut) (n_cols neighborsOut)
                 in unmap oldFromNewQueries neighborsOut distancesOut
                      [0..<n_cols neighborsOut] (neighbors, distances))))
      else (querySet, Search_set ops (ns l) querySet k))"

text \<open>\<^verbatim>\<open>Search(k, neighbors, distances)\<close>: the self-search goes straight to the engine.\<close>

definition NeighborSearchLeaf_Search_self ::
  "('tree, 'e) leaf_ops \<Rightarrow> 'e NeighborSearchLeaf \<Rightarrow> nat \<Rightarrow> exn + results" where
  "NeighborSearchLeaf_Search_self ops l k = Search_self ops (ns l) k"

text \<open>
  The same call on the caller's objects. \<^verbatim>\<open>querySet\<close>, \<^verbatim>\<open>neighbors\<close> and
  \<^verbatim>\<open>distances\<close> are references; the caller's matrices live in a store, the
  \<^verbatim>\<open>arma::mat\<close> objects in \<open>mats\<close> and the \<^verbatim>\<open>arma::Mat<size_t>\<close> objects in
  \<open>imats\<close>, and the call gets their addresses \<open>qa\<close>, \<open>na\<close> and \<open>da\<close>. Nothing keeps
  the caller from handing in one matrix as \<^verbatim>\<open>querySet\<close> and as \<^verbatim>\<open>distances\<close>.
  The query tree is built from the matrix at \<open>qa\<close> as it is on entry; the loop reads the
  temporaries and writes the caller's matrices column by column, and an exception leaves
  what has been written so far. In naive or single mode the engine gets the three
  references; it is taken to read the query set on entry and to write both results when
  it returns.
\<close>

record store =
  mats :: "nat \<Rightarrow> real Mat"
  imats :: "nat \<Rightarrow> nat Mat"

fun unmap_at ::
  "nat list \<Rightarrow> nat Mat \<Rightarrow> real Mat \<Rightarrow> nat \<Rightarrow> nat \<Rightarrow> nat list \<Rightarrow> store \<Rightarrow> exn option \<times> store" where
  "unmap_at oldFromNewQueries neighborsOut distancesOut na da [] s = (None, s)"
| "unmap_at oldFromNewQueries neighborsOut distancesOut na da (i # is) s =
     (if i < length oldFromNewQueries then
        (case col neighborsOut i of
          Inl e \<Rightarrow> (Some e, s)
        | Inr nc \<Rightarrow>
           (case set_col (imats s na) (oldFromNewQueries ! i) nc of
             Inl e \<Rightarrow> (Some e, s)
           | Inr neighbors' \<Rightarrow>
              let s1 = s\<lparr>imats := (imats s)(na := neighbors')\<rparr>
              in (case col distancesOut i of
                   Inl e \<Rightarrow> (Some e, s1)
                 | Inr dc \<Rightarrow>
                    (case set_col (mats s1 da) (oldFromNewQueries ! i) dc of
                      Inl e \<Rightarrow> (Some e, s1)
                    | Inr distances' \<Rightarrow>
                        unmap_at oldFromNewQueries neighborsOut distancesOut na da is
                          (s1\<lparr>mats := (mats s1)(da := distances')\<rparr>)))))
      else (Some out_of_range, s))"

definition NeighborSearchLeaf_Search_at ::
  "('tree, 'e) leaf_ops \<Rightarrow> (nat \<Rightarrow> nat \<Rightarrow> nat) \<Rightarrow> (nat \<Rightarrow> nat \<Rightarrow> real) \<Rightarrow>
   'e NeighborSearchLeaf \<Rightarrow> nat \<Rightarrow> nat \<Rightarrow> nat \<Rightarrow> nat \<Rightarrow> store \<Rightarrow> exn option \<times> store" where
  "NeighborSearchLeaf_Search_at ops fn fd l qa k na da s =
     (if \<not> Naive (ns l) \<and> \<not> SingleMode (ns l) then
        (case Tree_new ops (mats s qa) (leafSize l) of
          (queryTree, oldFromNewQueries) \<Rightarrow>
            let s0 = s\<lparr>mats := (mats s)(qa := after_move Const (mats s qa))\<rparr>
            in (case Search_tree ops (ns l) queryTree k False of
                 Inl e \<Rightarrow> (Some e, s0)
               | Inr (neighborsOut, distancesOut) \<Rightarrow>
                   let s1 = s0\<lparr>mats := (mats s0)
                              (da := set_size fd (n_rows distancesOut) (n_cols distancesOut))\<rparr>;
                       s2 = s1\<lparr>imats := (imats s1)
                              (na := set_size fn (n_rows neighborsOut) (n_cols neighborsOut))\<rparr>
                   in unmap_at oldFromNewQueries neighborsOut distancesOut na da
                        [0..<n_cols neighborsOut] s2))
      else
        (case Search_set ops (ns l) (mats s qa) k of
          Inl e \<Rightarrow> (Some e, s)
        | Inr (neighbors, distances) \<Rightarrow>
            (None, s\<lparr>imats := (imats s)(na := neighbors), mats := (mats s)(da := distances)\<rparr>)))"

section \<open>SpillSearch\<close>

text \<open>
  \<^verbatim>\<open>SpillSearch\<close> holds an engine and the overlap radius. Besides the engine's member
  functions it uses the engine's constructors
  \<^verbatim>\<open>NeighborSearch(naive, singleMode, epsilon, metric)\<close> and
  \<^verbatim>\<open>NeighborSearch(singleMode, epsilon, metric)\<close>, the copying
  \<^verbatim>\<open>ns.Train(const MatType&)\<close>, and the spill tree's constructor
  \<^verbatim>\<open>Tree(data, tau)\<close>.
\<close>

record 'e SpillSearch =
  neighborSearch :: "'e NeighborSearch"
  tau :: real

record ('tree, 'e, 'metric) spill_ops = "('tree, 'e) engine_ops" +
  Spill_NeighborSearch_new :: "bool \<Rightarrow> bool \<Rightarrow> real \<Rightarrow> 'metric \<Rightarrow> 'e NeighborSearch"
  Spill_NeighborSearch_new_single :: "bool \<Rightarrow> real \<Rightarrow> 'metric \<Rightarrow> 'e NeighborSearch"
  Train_ref :: "'e NeighborSearch \<Rightarrow> real Mat \<Rightarrow> 'e NeighborSearch"
  SpillTree_new :: "real Mat \<Rightarrow> real \<Rightarrow> 'tree"

text \<open>
  \<^verbatim>\<open>Train(const MatType&)\<close>, \<^verbatim>\<open>Train(MatType&&)\<close> and \<^verbatim>\<open>Train(Tree*)\<close>.
  \<^verbatim>\<open>Naive()\<close> and \<^verbatim>\<open>SingleMode()\<close> of \<^verbatim>\<open>SpillSearch\<close> are declared in
  its header; the object has no members but the engine and \<open>tau\<close>, and the flags were
  handed to the engine's constructor, so they are read from the engine, as
  \<^verbatim>\<open>NeighborSearchLeaf\<close> does.

  Each function also returns the steps it has taken, in order: the engine constructed,
  a tree built from a data set with an overlap, the engine trained on a tree or on a
  data set. The functions that take the reference set by rvalue reference return what
  is left in the caller's matrix as well.
\<close>

datatype spill_step =
    Constructed_engine
  | Built_tree "real Mat" real
  | Trained_on_tree
  | Trained_on_set "real Mat"

definition SpillSearch_Train_ref ::
  "('tree, 'e, 'metric) spill_ops \<Rightarrow> 'e SpillSearch \<Rightarrow> real Mat \<Rightarrow>
   'e SpillSearch \<times> spill_step list" where
  "SpillSearch_Train_ref ops s referenceSet =
     (if Naive (neighborSearch s) then
        (s\<lparr>neighborSearch := Train_ref ops (neighborSearch s) referenceSet\<rparr>,
         [Trained_on_set referenceSet])
      else
        let tree = SpillTree_new ops referenceSet (tau s);
            ns1 = Train_tree ops (neighborSearch s) tree
        in (s\<lparr>neighborSearch := ns1\<lparr>treeOwner := True\<rparr>\<rparr>,
            [Built_tree referenceSet (tau s), Trained_on_tree]))"

definition SpillSearch_Train ::
  "('tree, 'e, 'metric) spill_ops \<Rightarrow> 'e SpillSearch \<Rightarrow> real Mat \<Rightarrow>
   'e SpillSearch \<times> real Mat \<times> spill_step list" where
  "SpillSearch_Train ops s referenceSetIn =
     (if Naive (neighborSearch s) then
        (s\<lparr>neighborSearch := Train_set ops (neighborSearch s) referenceSetIn\<rparr>,
         after_move NonConst referenceSetIn,
         [Trained_on_set referenceSetIn])
      else
        let tree = SpillTree_new ops referenceSetIn (tau s);
            ns1 = Train_tree ops (neighborSearch s) tree
        in (s\<lparr>neighborSearch := ns1\<lparr>treeOwner := True\<rparr>\<rparr>,
            after_move NonConst referenceSetIn,
            [Built_tree referenceSetIn (tau s), Trained_on_tree]))"

definition SpillSearch_Train_tree ::
  "('tree, 'e, 'metric) spill_ops \<Rightarrow> 'e SpillSearch \<Rightarrow> 'tree \<Rightarrow>
   'e SpillSearch \<times> spill_step list" where
  "SpillSearch_Train_tree ops s referenceTree =
     (s\<lparr>neighborSearch := Train_tree ops (neighborSearch s) referenceTree\<rparr>,
      [Trained_on_tree])"

text \<open>
  The four constructors, in the order of the source: from a reference set by const
  reference, from a reference set by rvalue reference, from a reference tree, and
  without reference data. The members are initialised first, then \<open>tau\<close> is checked,
  then the object is trained. The result is the exception or the object, what is left
  in the caller's reference set (for the first two), and the steps taken.
\<close>

definition SpillSearch_new_ref ::
  "('tree, 'e, 'metric) spill_ops \<Rightarrow> real Mat \<Rightarrow> bool \<Rightarrow> bool \<Rightarrow> real \<Rightarrow> real \<Rightarrow> 'metric \<Rightarrow>
   (exn + 'e SpillSearch) \<times> real Mat \<times> spill_step list" where
  "SpillSearch_new_ref ops referenceSetIn naive singleMode t epsilon metric =
     (let s = \<lparr>neighborSearch = Spill_NeighborSearch_new ops naive singleMode epsilon metric,
                tau = t\<rparr>
      in if t < 0 then
           (Inl (invalid_argument ''tau must be non-negative''), referenceSetIn,
            [Constructed_engine])
         else
           (case SpillSearch_Train_ref ops s referenceSetIn of
             (s1, steps) \<Rightarrow> (Inr s1, referenceSetIn, Constructed_engine # steps)))"

definition SpillSearch_new_move ::
  "('tree, 'e, 'metric) spill_ops \<Rightarrow> real Mat \<Rightarrow> bool \<Rightarrow> bool \<Rightarrow> real \<Rightarrow> real \<Rightarrow> 'metric \<Rightarrow>
   (exn + 'e SpillSearch) \<times> real Mat \<times> spill_step list" where
  "SpillSearch_new_move ops referenceSetIn naive singleMode t epsilon metric =
     (let s = \<lparr>neighborSearch = Spill_NeighborSearch_new ops naive singleMode epsilon metric,
                tau = t\<rparr>
      in if t < 0 then
           (Inl (invalid_argument ''tau must be non-negative''), referenceSetIn,
            [Constructed_engine])
         else
           (case SpillSearch_Train ops s referenceSetIn of
             (s1, left, steps) \<Rightarrow> (Inr s1, left, Constructed_engine # steps)))"

definition SpillSearch_new_tree ::
  "('tree, 'e, 'metric) spill_ops \<Rightarrow> 'tree \<Rightarrow> bool \<Rightarrow> real \<Rightarrow> real \<Rightarrow> 'metric \<Rightarrow>
   (exn + 'e SpillSearch) \<times> spill_step list" where
  "SpillSearch_new_tree ops referenceTree singleMode t epsilon metric =
     (let s = \<lparr>neighborSearch = Spill_NeighborSearch_new_single ops singleMode epsilon metric,
                tau = t\<rparr>
      in if t < 0 then
           (Inl (invalid_argument ''tau must be non-negative''), [Constructed_engine])
         else
           (case SpillSearch_Train_tree ops s referenceTree of
             (s1, steps) \<Rightarrow> (Inr s1, Constructed_engine # steps)))"

definition SpillSearch_new_empty ::
  "('tree, 'e, 'metric) spill_ops \<Rightarrow> bool \<Rightarrow> bool \<Rightarrow> real \<Rightarrow> real \<Rightarrow> 'metric \<Rightarrow>
   (exn + 'e SpillSearch) \<times> spill_step list" where
  "SpillSearch_new_empty ops naive singleMode t epsilon metric =
     (let s = \<lparr>neighborSearch = Spill_NeighborSearch_new ops naive singleMode epsilon metric,
                tau = t\<rparr>
      in if t < 0 then
           (Inl (invalid_argument ''tau must be non-negative''), [Constructed_engine])
         else (Inr s, [Constructed_engine]))"

text \<open>The three searches: with a query set, with a query tree, and the self-search.\<close>

definition SpillSearch_Search ::
  "('tree, 'e, 'metric) spill_ops \<Rightarrow> 'e SpillSearch \<Rightarrow> real Mat \<Rightarrow> nat \<Rightarrow> exn + results" where
  "SpillSearch_Search ops s querySet k =
     (if Naive (neighborSearch s) \<or> SingleMode (neighborSearch s) then
        Search_set ops (neighborSearch s) querySet k
      else
        let queryTree = SpillTree_new ops querySet 0
        in Search_tree ops (neighborSearch s) queryTree k False)"

definition SpillSearch_Search_tree ::
  "('tree, 'e, 'metric) spill_ops \<Rightarrow> 'e SpillSearch \<Rightarrow> 'tree \<Rightarrow> nat \<Rightarrow> exn + results" where
  "SpillSearch_Search_tree ops s queryTree k = Search_tree ops (neighborSearch s) queryTree k False"

definition SpillSearch_Search_self ::
  "('tree, 'e, 'metric) spill_ops \<Rightarrow> 'e SpillSearch \<Rightarrow> nat \<Rightarrow> exn + results" where
  "SpillSearch_Search_self ops s k =
     (if tau s = 0 \<or> Naive (neighborSearch s) \<or> SingleMode (neighborSearch s) then
        Search_self ops (neighborSearch s) k
      else
        let queryTree = SpillTree_new ops (ReferenceSet ops (neighborSearch s)) 0
        in Search_tree ops (neighborSearch s) queryTree k True)"

section \<open>NSModel\<close>

datatype TreeTypes = KD_TREE | COVER_TREE | R_TREE | R_STAR_TREE | BALL_TREE | X_TREE

text \<open>
  \<^verbatim>\<open>NeighborSearchGen\<close> is the abstract engine. \<^verbatim>\<open>BuildModel\<close> creates two kinds
  of concrete engine: \<^verbatim>\<open>NSLeaf<Tree>\<close>, the leaf wrapper above, and
  \<^verbatim>\<open>NSType<Tree>\<close>, the search engine itself. The tag is the tree of the template
  instance; constructor and tag together are the concrete class of the object.
\<close>

datatype 'e NeighborSearchGen =
    NSLeaf TreeTypes "'e NeighborSearchLeaf"
  | NSType TreeTypes "'e NeighborSearch"


fun Gen_Search ::
  "(TreeTypes \<Rightarrow> ('tree, 'e) leaf_ops) \<Rightarrow> (nat \<Rightarrow> nat \<Rightarrow> nat) \<Rightarrow> (nat \<Rightarrow> nat \<Rightarrow> real) \<Rightarrow>
   'e NeighborSearchGen \<Rightarrow> real Mat \<Rightarrow> nat \<Rightarrow> exn + results" where
  "Gen_Search ops fn fd (NSLeaf t l) querySet k =
     snd (NeighborSearchLeaf_Search (ops t) fn fd l querySet k)"
| "Gen_Search ops fn fd (NSType t n) querySet k = Search_set (ops t) n querySet k"

fun Gen_Search_self ::
  "(TreeTypes \<Rightarrow> ('tree, 'e) leaf_ops) \<Rightarrow> 'e NeighborSearchGen \<Rightarrow> nat \<Rightarrow> exn + results" where
  "Gen_Search_self ops (NSLeaf t l) k = NeighborSearchLeaf_Search_self (ops t) l k"
| "Gen_Search_self ops (NSType t n) k = Search_self (ops t) n k"

fun Gen_ReferenceSet ::
  "(TreeTypes \<Rightarrow> ('tree, 'e) leaf_ops) \<Rightarrow> 'e NeighborSearchGen \<Rightarrow> real Mat" where
  "Gen_ReferenceSet ops (NSLeaf t l) = ReferenceSet (ops t) (ns l)"
| "Gen_ReferenceSet ops (NSType t n) = ReferenceSet (ops t) n"

fun Gen_Naive :: "'e NeighborSearchGen \<Rightarrow> bool" where
  "Gen_Naive (NSLeaf t l) = Naive (ns l)"
| "Gen_Naive (NSType t n) = Naive n"

fun Gen_SingleMode :: "'e NeighborSearchGen \<Rightarrow> bool" where
  "Gen_SingleMode (NSLeaf t l) = SingleMode (ns l)"
| "Gen_SingleMode (NSType t n) = SingleMode n"

text \<open>
  The free store, as far as ownership goes: \<^verbatim>\<open>new\<close> hands out the next address,
  \<^verbatim>\<open>delete\<close> is logged. The model's pointer \<open>nSearch\<close> is null (\<open>None\<close>) or the
  address of its engine together with the engine's state.
\<close>

record heap =
  allocated :: nat
  released :: "nat list"

definition empty_heap :: heap where
  "empty_heap = \<lparr>allocated = 0, released = []\<rparr>"

definition new_obj :: "heap \<Rightarrow> nat \<times> heap" where
  "new_obj h = (allocated h, h\<lparr>allocated := Suc (allocated h)\<rparr>)"

definition delete_obj :: "nat \<Rightarrow> heap \<Rightarrow> heap" where
  "delete_obj p h = h\<lparr>released := released h @ [p]\<rparr>"

record 'e NSModel =
  treeType :: TreeTypes
  randomBasis :: bool
  q :: "real Mat"
  nSearch :: "(nat \<times> 'e NeighborSearchGen) option"

text \<open>
  The numerical library: the matrix product, \<^verbatim>\<open>arma::qr(Q, R, X)\<close> (whether it
  succeeded, and the two factors), \<^verbatim>\<open>arma::det\<close>, \<^verbatim>\<open>arma::diagmat\<close>, and
  \<^verbatim>\<open>arma::randn(rows, cols)\<close>, whose third argument here counts the draws made from
  the random number generator so far. The values are parameters of the model.
\<close>

record arma_ops =
  arma_times :: "real Mat \<Rightarrow> real Mat \<Rightarrow> real Mat"
  arma_qr :: "real Mat \<Rightarrow> bool \<times> real Mat \<times> real Mat"
  arma_det :: "real Mat \<Rightarrow> real"
  arma_diagmat :: "real list \<Rightarrow> real Mat"
  arma_randn :: "nat \<Rightarrow> nat \<Rightarrow> nat \<Rightarrow> real Mat"

text \<open>
  The library checks the sizes, as it checks the indices: \<^verbatim>\<open>a * b\<close> throws
  \<^verbatim>\<open>std::logic_error\<close> unless \<open>a\<close> has as many columns as \<open>b\<close> has rows (the
  message also names the sizes, which the model leaves out), and \<^verbatim>\<open>det(a)\<close> throws
  unless \<open>a\<close> is square. A product that throws leaves its operands as they were.
\<close>

definition Mat_times :: "arma_ops \<Rightarrow> real Mat \<Rightarrow> real Mat \<Rightarrow> exn + real Mat" where
  "Mat_times A a b =
     (if n_cols a = n_rows b then Inr (arma_times A a b)
      else Inl (logic_error ''matrix multiplication: incompatible matrix dimensions''))"


definition NSModel_new :: "TreeTypes \<Rightarrow> bool \<Rightarrow> 'e NSModel" where
  "NSModel_new t rb = \<lparr>treeType = t, randomBasis = rb, q = empty_Mat, nSearch = None\<rparr>"








text \<open>
  \<^verbatim>\<open>Search(arma::mat&& querySet, k, neighbors, distances)\<close>: what is left in the
  caller's \<^verbatim>\<open>querySet\<close>, and the exception or the two output matrices. The product
  comes before the test of the pointer.
\<close>

definition NSModel_Search ::
  "(TreeTypes \<Rightarrow> ('tree, 'e) leaf_ops) \<Rightarrow> arma_ops \<Rightarrow> (nat \<Rightarrow> nat \<Rightarrow> nat) \<Rightarrow> (nat \<Rightarrow> nat \<Rightarrow> real) \<Rightarrow>
   'e NSModel \<Rightarrow> real Mat \<Rightarrow> nat \<Rightarrow> real Mat \<times> (exn + results)" where
  "NSModel_Search ops A fn fd m querySet k =
     (case (if randomBasis m then Mat_times A (q m) querySet else Inr querySet) of
       Inl e \<Rightarrow> (querySet, Inl e)
     | Inr querySet1 \<Rightarrow>
        (case nSearch m of
          Some (p, g) \<Rightarrow> (querySet1, Gen_Search ops fn fd g querySet1 k)
        | None \<Rightarrow> (querySet1, Inl (runtime_error ''no neighbor search model initialized''))))"

definition NSModel_Search_self ::
  "(TreeTypes \<Rightarrow> ('tree, 'e) leaf_ops) \<Rightarrow> 'e NSModel \<Rightarrow> nat \<Rightarrow> exn + results" where
  "NSModel_Search_self ops m k =
     (case nSearch m of
       Some (p, g) \<Rightarrow> Gen_Search_self ops g k
     | None \<Rightarrow> Inl (runtime_error ''no neighbor search model initialized''))"

definition NSModel_Dataset ::
  "(TreeTypes \<Rightarrow> ('tree, 'e) leaf_ops) \<Rightarrow> 'e NSModel \<Rightarrow> exn + real Mat" where
  "NSModel_Dataset ops m =
     (case nSearch m of
       Some (p, g) \<Rightarrow> Inr (Gen_ReferenceSet ops g)
     | None \<Rightarrow> Inl (runtime_error ''no neighbor search model initialized''))"

definition NSModel_Naive :: "'e NSModel \<Rightarrow> exn + bool" where
  "NSModel_Naive m =
     (case nSearch m of
       Some (p, g) \<Rightarrow> Inr (Gen_Naive g)
     | None \<Rightarrow> Inl (runtime_error ''no neighbor search model initialized''))"

definition NSModel_SingleMode :: "'e NSModel \<Rightarrow> exn + bool" where
  "NSModel_SingleMode m =
     (case nSearch m of
       Some (p, g) \<Rightarrow> Inr (Gen_SingleMode g)
     | None \<Rightarrow> Inl (runtime_error ''no neighbor search model initialized''))"

fun TreeName :: "TreeTypes \<Rightarrow> string" where
  "TreeName KD_TREE = ''kd-tree''"
| "TreeName COVER_TREE = ''cover tree''"
| "TreeName R_TREE = ''R tree''"
| "TreeName R_STAR_TREE = ''R* tree''"
| "TreeName BALL_TREE = ''ball tree''"
| "TreeName X_TREE = ''X tree''"

text \<open>
  \<^verbatim>\<open>Serialize(Archive& ar, version)\<close>. An archive is either being read
  (\<open>is_loading\<close>) or being written; \<^verbatim>\<open>ar & x\<close> reads \<open>x\<close> from it or writes \<open>x\<close>
  to it. \<open>ar_child\<close> is what the archive holds under the model's name: \<open>None\<close> for a null
  pointer, or the data of an engine. The archive library reads and writes an engine
  through a pointer of a given class; it is a parameter of the model, and reading may
  throw.
\<close>

record 'p Archive =
  is_loading :: bool
  ar_treeType :: TreeTypes
  ar_randomBasis :: bool
  ar_q :: "real Mat"
  ar_child :: "'p option"

record ('p, 'e) archive_ops =
  write_NSLeaf :: "TreeTypes \<Rightarrow> 'e NeighborSearchLeaf \<Rightarrow> 'p"
  write_NSType :: "TreeTypes \<Rightarrow> 'e NeighborSearch \<Rightarrow> 'p"
  read_NSLeaf :: "TreeTypes \<Rightarrow> 'p \<Rightarrow> exn + 'e NeighborSearchLeaf"
  read_NSType :: "TreeTypes \<Rightarrow> 'p \<Rightarrow> exn + 'e NeighborSearch"

text \<open>
  The \<^verbatim>\<open>switch\<close> of \<^verbatim>\<open>Serialize\<close> casts \<open>nSearch\<close> to a pointer of the class
  the discriminant selects and hands that pointer to the archive. When reading,
  \<open>nSearch\<close> is null by then, and the archive builds an object of the pointer's class
  from the data. When writing, the engine is written as an object of the pointer's
  class; that is the engine's class for every model that \<^verbatim>\<open>BuildModel\<close> has built.
\<close>

fun read_child ::
  "('p, 'e) archive_ops \<Rightarrow> TreeTypes \<Rightarrow> 'p \<Rightarrow> exn + 'e NeighborSearchGen" where
  "read_child P KD_TREE x =
     (case read_NSLeaf P KD_TREE x of Inl e \<Rightarrow> Inl e | Inr l \<Rightarrow> Inr (NSLeaf KD_TREE l))"
| "read_child P COVER_TREE x =
     (case read_NSType P COVER_TREE x of Inl e \<Rightarrow> Inl e | Inr n \<Rightarrow> Inr (NSType COVER_TREE n))"
| "read_child P R_TREE x =
     (case read_NSType P R_TREE x of Inl e \<Rightarrow> Inl e | Inr n \<Rightarrow> Inr (NSType R_TREE n))"
| "read_child P R_STAR_TREE x =
     (case read_NSType P R_STAR_TREE x of Inl e \<Rightarrow> Inl e | Inr n \<Rightarrow> Inr (NSType R_STAR_TREE n))"
| "read_child P BALL_TREE x =
     (case read_NSLeaf P BALL_TREE x of Inl e \<Rightarrow> Inl e | Inr l \<Rightarrow> Inr (NSLeaf BALL_TREE l))"
| "read_child P X_TREE x =
     (case read_NSType P X_TREE x of Inl e \<Rightarrow> Inl e | Inr n \<Rightarrow> Inr (NSType X_TREE n))"

fun write_child ::
  "('p, 'e) archive_ops \<Rightarrow> TreeTypes \<Rightarrow> 'e NeighborSearchGen \<Rightarrow> exn + 'p" where
  "write_child P KD_TREE (NSLeaf KD_TREE l) = Inr (write_NSLeaf P KD_TREE l)"
| "write_child P COVER_TREE (NSType COVER_TREE n) = Inr (write_NSType P COVER_TREE n)"
| "write_child P R_TREE (NSType R_TREE n) = Inr (write_NSType P R_TREE n)"
| "write_child P R_STAR_TREE (NSType R_STAR_TREE n) = Inr (write_NSType P R_STAR_TREE n)"
| "write_child P BALL_TREE (NSLeaf BALL_TREE l) = Inr (write_NSLeaf P BALL_TREE l)"
| "write_child P X_TREE (NSType X_TREE n) = Inr (write_NSType P X_TREE n)"
| "write_child P t g = Inl bad_cast"

definition NSModel_Serialize ::
  "('p, 'e) archive_ops \<Rightarrow> heap \<Rightarrow> 'e NSModel \<Rightarrow> 'p Archive \<Rightarrow>
   exn option \<times> heap \<times> 'e NSModel \<times> 'p Archive" where
  "NSModel_Serialize P h m ar =
     (if is_loading ar then
        let m1 = m\<lparr>treeType := ar_treeType ar, randomBasis := ar_randomBasis ar, q := ar_q ar\<rparr>;
            h1 = (case nSearch m1 of Some (p, old) \<Rightarrow> delete_obj p h | None \<Rightarrow> h);
            m2 = m1\<lparr>nSearch := None\<rparr>
        in (case ar_child ar of
             None \<Rightarrow> (None, h1, m2, ar)
           | Some x \<Rightarrow>
              (case read_child P (treeType m2) x of
                Inl e \<Rightarrow> (Some e, h1, m2, ar)
              | Inr child \<Rightarrow>
                 (case new_obj h1 of
                   (p1, h2) \<Rightarrow> (None, h2, m2\<lparr>nSearch := Some (p1, child)\<rparr>, ar))))
      else
        let ar1 = ar\<lparr>ar_treeType := treeType m, ar_randomBasis := randomBasis m, ar_q := q m\<rparr>
        in (case nSearch m of
             None \<Rightarrow> (None, h, m, ar1\<lparr>ar_child := None\<rparr>)
           | Some (p, g) \<Rightarrow>
              (case write_child P (treeType m) g of
                Inl e \<Rightarrow> (Some e, h, m, ar1)
              | Inr x \<Rightarrow> (None, h, m, ar1\<lparr>ar_child := Some x\<rparr>))))"





section \<open>A small instance of the engine and of the numerical library\<close>

text \<open>
  To run the wrappers on concrete data: a tree is the data set with its points in
  reverse order (so the permutation is not the identity) together with the leaf size or
  the overlap radius it was built with; a search reports, for the \<open>i\<close>-th query in the
  order it is given, the index \<open>i\<close> and the query point itself; the engine keeps its
  reference set.
\<close>

definition echo_search :: "real Mat \<Rightarrow> exn + results" where
  "echo_search m =
     Inr (\<lparr>n_rows = 1, cols = map (\<lambda>i. [i]) [0..<n_cols m]\<rparr>,
          \<lparr>n_rows = n_rows m, cols = cols m\<rparr>)"

definition echo_ops :: "(real Mat \<times> real, real Mat) leaf_ops" where
  "echo_ops =
     \<lparr>Train_tree = (\<lambda>s t. s\<lparr>treeOwner := False, internals := fst t\<rparr>),
      Train_set = (\<lambda>s m. s\<lparr>internals := m\<rparr>),
      Search_set = (\<lambda>s m k. echo_search m),
      Search_tree = (\<lambda>s t k sameSet. echo_search (fst t)),
      Search_self = (\<lambda>s k. echo_search (internals s)),
      ReferenceSet = internals,
      NeighborSearch_new = (\<lambda>naive singleMode.
        \<lparr>Naive = naive, SingleMode = singleMode, treeOwner = False,
         oldFromNewReferences = [], internals = empty_Mat\<rparr>),
      Tree_new = (\<lambda>m ls. ((m\<lparr>cols := rev (cols m)\<rparr>, real ls), rev [0..<n_cols m]))\<rparr>"

definition echo_spill_ops :: "(real Mat \<times> real, real Mat, unit) spill_ops" where
  "echo_spill_ops =
     \<lparr>Train_tree = (\<lambda>s t. s\<lparr>treeOwner := False, internals := fst t\<rparr>),
      Train_set = (\<lambda>s m. s\<lparr>internals := m\<rparr>),
      Search_set = (\<lambda>s m k. echo_search m),
      Search_tree = (\<lambda>s t k sameSet. echo_search (fst t)),
      Search_self = (\<lambda>s k. echo_search (internals s)),
      ReferenceSet = internals,
      Spill_NeighborSearch_new = (\<lambda>naive singleMode epsilon metric.
        \<lparr>Naive = naive, SingleMode = singleMode, treeOwner = False,
         oldFromNewReferences = [], internals = empty_Mat\<rparr>),
      Spill_NeighborSearch_new_single = (\<lambda>singleMode epsilon metric.
        \<lparr>Naive = False, SingleMode = singleMode, treeOwner = False,
         oldFromNewReferences = [], internals = empty_Mat\<rparr>),
      Train_ref = (\<lambda>s m. s\<lparr>internals := m\<rparr>),
      SpillTree_new = (\<lambda>m t. (m\<lparr>cols := rev (cols m)\<rparr>, t))\<rparr>"

text \<open>
  The numerical library on small matrices: the product, the diagonal matrix of a
  vector, the determinant of a diagonal matrix. The random matrices drawn are diagonal:
  the first is a reflection, the later ones the identity; their \<open>QR\<close> decomposition has
  the identity as triangular factor.
\<close>

definition diag_Mat :: "nat \<Rightarrow> (nat \<Rightarrow> real) \<Rightarrow> real Mat" where
  "diag_Mat d f = \<lparr>n_rows = d, cols = map (\<lambda>j. map (\<lambda>i. if i = j then f j else 0) [0..<d]) [0..<d]\<rparr>"

definition small_arma :: arma_ops where
  "small_arma =
     \<lparr>arma_times = (\<lambda>a b.
        \<lparr>n_rows = n_rows a,
         cols = map (\<lambda>c. map (\<lambda>i. sum_list (map (\<lambda>j. cols a ! j ! i * c ! j) [0..<length c]))
                           [0..<n_rows a]) (cols b)\<rparr>),
      arma_qr = (\<lambda>x. (True, x, diag_Mat (n_rows x) (\<lambda>j. 1))),
      arma_det = (\<lambda>m. prod_list (map (\<lambda>i. cols m ! i ! i) [0..<n_rows m])),
      arma_diagmat = (\<lambda>v. diag_Mat (length v) (\<lambda>j. v ! j)),
      arma_randn = (\<lambda>r c g. diag_Mat r (\<lambda>j. if g = 0 \<and> j = 0 then - 1 else 1))\<rparr>"

text \<open>
  Sample data: a spill search object trained on the points \<open>1, 2, 3\<close> of the line with
  \<open>tau = 1/2\<close>, in dual-tree or in single mode.
\<close>

definition spill_on_three :: "bool \<Rightarrow> real Mat SpillSearch" where
  "spill_on_three single =
     \<lparr>neighborSearch =
        \<lparr>Naive = False, SingleMode = single, treeOwner = True, oldFromNewReferences = [],
         internals = \<lparr>n_rows = 1, cols = [[3], [2], [1]]\<rparr>\<rparr>,
      tau = 1 / 2\<rparr>"

text \<open>
  An archive format that keeps an engine's fields and no record of its class: the data
  of an engine are its leaf size (\<open>0\<close> when it has none) and its search engine. And an
  archive to read from, whose discriminant is \<open>COVER_TREE\<close> while the engine data in it
  were written from a leaf wrapper over a kd-tree.
\<close>

definition plain_archive :: "(nat \<times> 'e NeighborSearch, 'e) archive_ops" where
  "plain_archive =
     \<lparr>write_NSLeaf = (\<lambda>t l. (leafSize l, ns l)),
      write_NSType = (\<lambda>t n. (0, n)),
      read_NSLeaf = (\<lambda>t x. Inr \<lparr>leafSize = fst x, ns = snd x\<rparr>),
      read_NSType = (\<lambda>t x. Inr (snd x))\<rparr>"

definition kd_engine_in_cover_archive :: "(nat \<times> real Mat NeighborSearch) Archive" where
  "kd_engine_in_cover_archive =
     \<lparr>is_loading = True, ar_treeType = COVER_TREE, ar_randomBasis = False, ar_q = empty_Mat,
      ar_child =
        Some (write_NSLeaf plain_archive KD_TREE (NeighborSearchLeaf_new echo_ops False False 20))\<rparr>"

text \<open>
  More sample data: what \<^verbatim>\<open>set_size\<close> leaves behind; three points of the plane; a
  store that holds them at every address; an engine that answers every search with a
  tree by the same two matrices; a model that has read a basis and a null engine from
  an archive; and the engine above for every tree type.
\<close>

definition junk_nat :: "nat \<Rightarrow> nat \<Rightarrow> nat" where
  "junk_nat i j = 7"

definition junk_real :: "nat \<Rightarrow> nat \<Rightarrow> real" where
  "junk_real i j = 7"

definition three_points :: "real Mat" where
  "three_points = \<lparr>n_rows = 2, cols = [[0, 0], [1, 0], [0, 1]]\<rparr>"

definition points_store :: store where
  "points_store = \<lparr>mats = (\<lambda>a. three_points), imats = (\<lambda>a. empty_Mat)\<rparr>"

definition fixed_answer_ops :: "(real Mat \<times> real, real Mat) leaf_ops" where
  "fixed_answer_ops =
     echo_ops\<lparr>Search_tree := (\<lambda>s t k sameSet.
       Inr (\<lparr>n_rows = 1, cols = [[0], [1], [2]]\<rparr>, \<lparr>n_rows = 1, cols = [[1], [1], [0]]\<rparr>))\<rparr>"


definition echo_all :: "TreeTypes \<Rightarrow> (real Mat \<times> real, real Mat) leaf_ops" where
  "echo_all t = echo_ops"



section \<open>Properties of NeighborSearchLeaf\<close>

subsection \<open>The unmapping loop\<close>

lemma set_col_Inr:
  "j < n_cols m \<Longrightarrow> set_col m j v = Inr (m\<lparr>cols := (cols m)[j := v]\<rparr>)"
  by (simp add: set_col_def)

lemma col_Inr: "i < n_cols m \<Longrightarrow> col m i = Inr (cols m ! i)"
  by (simp add: col_def)

lemma unmap_writes:
  assumes "distinct is"
    and "\<forall>i\<in>set is. i < length old \<and> i < n_cols nOut \<and> i < n_cols dOut
            \<and> old ! i < n_cols nb \<and> old ! i < n_cols ds"
    and "inj_on ((!) old) (set is)"
  shows "\<exists>nb' ds'. unmap old nOut dOut is (nb, ds) = Inr (nb', ds')
            \<and> n_rows nb' = n_rows nb \<and> n_cols nb' = n_cols nb
            \<and> n_rows ds' = n_rows ds \<and> n_cols ds' = n_cols ds
            \<and> (\<forall>i\<in>set is. cols nb' ! (old ! i) = cols nOut ! i
                           \<and> cols ds' ! (old ! i) = cols dOut ! i)
            \<and> (\<forall>j. j \<notin> (!) old ` set is \<longrightarrow>
                   cols nb' ! j = cols nb ! j \<and> cols ds' ! j = cols ds ! j)"
  using assms
proof (induction "is" arbitrary: nb ds)
  case Nil
  then show ?case by simp
next
  case (Cons i "is")
  let ?j = "old ! i"
  let ?nb = "nb\<lparr>cols := (cols nb)[?j := cols nOut ! i]\<rparr>"
  let ?ds = "ds\<lparr>cols := (cols ds)[?j := cols dOut ! i]\<rparr>"
  from Cons.prems have i: "i < length old" "i < n_cols nOut" "i < n_cols dOut"
    "?j < n_cols nb" "?j < n_cols ds" by simp_all
  have step: "unmap old nOut dOut (i # is) (nb, ds) = unmap old nOut dOut is (?nb, ?ds)"
    using i by (simp add: col_Inr set_col_Inr)
  have fresh: "?j \<notin> (!) old ` set is"
    using Cons.prems(1,3) by (auto simp: inj_on_def)
  have "\<exists>nb' ds'. unmap old nOut dOut is (?nb, ?ds) = Inr (nb', ds')
            \<and> n_rows nb' = n_rows ?nb \<and> n_cols nb' = n_cols ?nb
            \<and> n_rows ds' = n_rows ?ds \<and> n_cols ds' = n_cols ?ds
            \<and> (\<forall>i\<in>set is. cols nb' ! (old ! i) = cols nOut ! i
                           \<and> cols ds' ! (old ! i) = cols dOut ! i)
            \<and> (\<forall>j. j \<notin> (!) old ` set is \<longrightarrow>
                   cols nb' ! j = cols ?nb ! j \<and> cols ds' ! j = cols ?ds ! j)"
    using Cons.prems by (intro Cons.IH) (auto simp: n_cols_def inj_on_def)
  then obtain nb' ds' where r: "unmap old nOut dOut is (?nb, ?ds) = Inr (nb', ds')"
    and dims: "n_rows nb' = n_rows nb" "n_cols nb' = n_cols nb"
              "n_rows ds' = n_rows ds" "n_cols ds' = n_cols ds"
    and written: "\<forall>i\<in>set is. cols nb' ! (old ! i) = cols nOut ! i
                           \<and> cols ds' ! (old ! i) = cols dOut ! i"
    and kept: "\<forall>j. j \<notin> (!) old ` set is \<longrightarrow>
                   cols nb' ! j = cols ?nb ! j \<and> cols ds' ! j = cols ?ds ! j"
    by (auto simp: n_cols_def)
  have here: "cols nb' ! ?j = cols nOut ! i" "cols ds' ! ?j = cols dOut ! i"
    using kept fresh i(4,5) by (simp_all add: n_cols_def)
  have other: "\<forall>j. j \<notin> (!) old ` set (i # is) \<longrightarrow>
                   cols nb' ! j = cols nb ! j \<and> cols ds' ! j = cols ds ! j"
    using kept by auto
  show ?case
    unfolding step r using dims written here other by simp
qed

subsection \<open>Train and Search\<close>

text \<open>
  Claim C7. \<^verbatim>\<open>NeighborSearchLeaf::Train\<close> in non-naive mode builds a tree from the
  reference set with the configured leaf size, trains the engine on it, stores the
  permutation the tree construction returned in \<open>oldFromNewReferences\<close> and sets
  \<open>treeOwner\<close>. In naive mode it trains the engine on the raw points: the result is
  the engine's own \<^verbatim>\<open>Train\<close> on the matrix, and it does not depend on the tree
  constructor, so no tree and no permutation are made. The leaf size is unchanged.
\<close>

theorem NeighborSearchLeaf_Train_builds_and_owns_tree:
  "(\<not> Naive (ns l) \<longrightarrow>
      ns (fst (NeighborSearchLeaf_Train ops l referenceSet)) =
        (Train_tree ops (ns l) (fst (Tree_new ops referenceSet (leafSize l))))
          \<lparr>treeOwner := True,
           oldFromNewReferences := snd (Tree_new ops referenceSet (leafSize l))\<rparr>
      \<and> treeOwner (ns (fst (NeighborSearchLeaf_Train ops l referenceSet)))
      \<and> oldFromNewReferences (ns (fst (NeighborSearchLeaf_Train ops l referenceSet))) =
          snd (Tree_new ops referenceSet (leafSize l)))
   \<and> (Naive (ns l) \<longrightarrow>
      ns (fst (NeighborSearchLeaf_Train ops l referenceSet)) = Train_set ops (ns l) referenceSet
      \<and> (\<forall>f. NeighborSearchLeaf_Train (ops\<lparr>Tree_new := f\<rparr>) l referenceSet =
               NeighborSearchLeaf_Train ops l referenceSet))
   \<and> leafSize (fst (NeighborSearchLeaf_Train ops l referenceSet)) = leafSize l"
  by (simp add: NeighborSearchLeaf_Train_def Let_def case_prod_beta)

text \<open>
  Claim C1. \<^verbatim>\<open>NeighborSearchLeaf::Search\<close> with a query set, in dual-tree mode
  (neither naive nor single): a query tree is built from the query set with the leaf
  size, which yields the permutation \<open>oldFromNewQueries\<close>; the engine searches with that
  tree into temporary matrices. If the engine throws, so does the wrapper. If it
  returns, and the permutation is a permutation of the column indices of the raw
  output, the wrapper returns matrices of the same size in which column
  \<open>oldFromNewQueries[i]\<close> is column \<open>i\<close> of the raw output, for every \<open>i\<close>, for
  neighbors and for distances, whatever the matrices held after resizing. In naive or
  single mode the result is the engine's search on the query set itself, and it does
  not depend on the tree constructor.
\<close>

theorem NeighborSearchLeaf_Search_unmaps_queries:
  "(\<not> Naive (ns l) \<and> \<not> SingleMode (ns l) \<longrightarrow>
      (\<forall>e. Search_tree ops (ns l) (fst (Tree_new ops querySet (leafSize l))) k False = Inl e \<longrightarrow>
           snd (NeighborSearchLeaf_Search ops fn fd l querySet k) = Inl e)
    \<and> (\<forall>neighborsOut distancesOut.
          Search_tree ops (ns l) (fst (Tree_new ops querySet (leafSize l))) k False =
            Inr (neighborsOut, distancesOut)
          \<and> n_cols distancesOut = n_cols neighborsOut
          \<and> length (snd (Tree_new ops querySet (leafSize l))) = n_cols neighborsOut
          \<and> distinct (snd (Tree_new ops querySet (leafSize l)))
          \<and> set (snd (Tree_new ops querySet (leafSize l))) \<subseteq> {..<n_cols neighborsOut}
        \<longrightarrow> (\<exists>neighbors distances.
               snd (NeighborSearchLeaf_Search ops fn fd l querySet k) = Inr (neighbors, distances)
             \<and> n_rows neighbors = n_rows neighborsOut \<and> n_cols neighbors = n_cols neighborsOut
             \<and> n_rows distances = n_rows distancesOut \<and> n_cols distances = n_cols distancesOut
             \<and> (\<forall>i<n_cols neighborsOut.
                  cols neighbors ! (snd (Tree_new ops querySet (leafSize l)) ! i) =
                    cols neighborsOut ! i
                \<and> cols distances ! (snd (Tree_new ops querySet (leafSize l)) ! i) =
                    cols distancesOut ! i))))
   \<and> (Naive (ns l) \<or> SingleMode (ns l) \<longrightarrow>
        snd (NeighborSearchLeaf_Search ops fn fd l querySet k) = Search_set ops (ns l) querySet k
      \<and> (\<forall>f. NeighborSearchLeaf_Search (ops\<lparr>Tree_new := f\<rparr>) fn fd l querySet k =
               NeighborSearchLeaf_Search ops fn fd l querySet k))"
proof (intro conjI impI allI)
  fix e
  assume "\<not> Naive (ns l) \<and> \<not> SingleMode (ns l)"
    and "Search_tree ops (ns l) (fst (Tree_new ops querySet (leafSize l))) k False = Inl e"
  then show "snd (NeighborSearchLeaf_Search ops fn fd l querySet k) = Inl e"
    by (simp add: NeighborSearchLeaf_Search_def case_prod_beta)
next
  fix neighborsOut :: "nat Mat" and distancesOut :: "real Mat"
  let ?old = "snd (Tree_new ops querySet (leafSize l))"
  let ?n = "n_cols neighborsOut"
  let ?nb = "set_size fn (n_rows neighborsOut) ?n"
  let ?ds = "set_size fd (n_rows distancesOut) (n_cols distancesOut)"
  assume dual: "\<not> Naive (ns l) \<and> \<not> SingleMode (ns l)"
    and h: "Search_tree ops (ns l) (fst (Tree_new ops querySet (leafSize l))) k False =
            Inr (neighborsOut, distancesOut)
          \<and> n_cols distancesOut = ?n \<and> length ?old = ?n \<and> distinct ?old
          \<and> set ?old \<subseteq> {..<?n}"
  have run: "snd (NeighborSearchLeaf_Search ops fn fd l querySet k) =
               unmap ?old neighborsOut distancesOut [0..<?n] (?nb, ?ds)"
    using dual h by (simp add: NeighborSearchLeaf_Search_def Let_def case_prod_beta)
  have sz: "n_cols ?nb = ?n" "n_cols ?ds = ?n" "n_rows ?nb = n_rows neighborsOut"
    "n_rows ?ds = n_rows distancesOut"
    using h by (simp_all add: set_size_def n_cols_def)
  have inj: "inj_on ((!) ?old) (set [0..<?n])"
    using h by (auto simp: inj_on_def nth_eq_iff_index_eq)
  have rng: "\<forall>i\<in>set [0..<?n]. i < length ?old \<and> i < n_cols neighborsOut
               \<and> i < n_cols distancesOut \<and> ?old ! i < n_cols ?nb \<and> ?old ! i < n_cols ?ds"
  proof
    fix i assume "i \<in> set [0..<?n]"
    then have i: "i < length ?old" using h by simp
    then have "?old ! i \<in> set ?old" by simp
    then have "?old ! i < ?n" using h by blast
    then show "i < length ?old \<and> i < n_cols neighborsOut
               \<and> i < n_cols distancesOut \<and> ?old ! i < n_cols ?nb \<and> ?old ! i < n_cols ?ds"
      using i h sz by simp
  qed
  from unmap_writes [OF distinct_upt rng inj]
  obtain nb' ds' where "unmap ?old neighborsOut distancesOut [0..<?n] (?nb, ?ds) = Inr (nb', ds')"
    "n_rows nb' = n_rows ?nb" "n_cols nb' = n_cols ?nb"
    "n_rows ds' = n_rows ?ds" "n_cols ds' = n_cols ?ds"
    "\<forall>i\<in>set [0..<?n]. cols nb' ! (?old ! i) = cols neighborsOut ! i
                           \<and> cols ds' ! (?old ! i) = cols distancesOut ! i"
    by blast
  then show "\<exists>neighbors distances.
               snd (NeighborSearchLeaf_Search ops fn fd l querySet k) = Inr (neighbors, distances)
             \<and> n_rows neighbors = n_rows neighborsOut \<and> n_cols neighbors = n_cols neighborsOut
             \<and> n_rows distances = n_rows distancesOut \<and> n_cols distances = n_cols distancesOut
             \<and> (\<forall>i<n_cols neighborsOut.
                  cols neighbors ! (?old ! i) = cols neighborsOut ! i
                \<and> cols distances ! (?old ! i) = cols distancesOut ! i)"
    unfolding run using sz h by simp
next
  assume "Naive (ns l) \<or> SingleMode (ns l)"
  then show "snd (NeighborSearchLeaf_Search ops fn fd l querySet k) =
               Search_set ops (ns l) querySet k"
    by (auto simp: NeighborSearchLeaf_Search_def)
next
  fix f
  assume "Naive (ns l) \<or> SingleMode (ns l)"
  then show "NeighborSearchLeaf_Search (ops\<lparr>Tree_new := f\<rparr>) fn fd l querySet k =
               NeighborSearchLeaf_Search ops fn fd l querySet k"
    by (auto simp: NeighborSearchLeaf_Search_def)
qed

text \<open>
  Both modes on three points in the plane: the tree reverses the points, so the
  permutation stored is \<open>[2, 1, 0]\<close>.
\<close>

theorem NeighborSearchLeaf_Train_witness:
  "\<not> Naive (ns (NeighborSearchLeaf_new echo_ops False False 20))
   \<and> fst (NeighborSearchLeaf_Train echo_ops (NeighborSearchLeaf_new echo_ops False False 20)
          \<lparr>n_rows = 2, cols = [[0, 0], [1, 0], [0, 1]]\<rparr>) =
       \<lparr>leafSize = 20,
        ns = \<lparr>Naive = False, SingleMode = False, treeOwner = True,
              oldFromNewReferences = [2, 1, 0],
              internals = \<lparr>n_rows = 2, cols = [[0, 1], [1, 0], [0, 0]]\<rparr>\<rparr>\<rparr>
   \<and> Naive (ns (NeighborSearchLeaf_new echo_ops True False 20))
   \<and> fst (NeighborSearchLeaf_Train echo_ops (NeighborSearchLeaf_new echo_ops True False 20)
          \<lparr>n_rows = 2, cols = [[0, 0], [1, 0], [0, 1]]\<rparr>) =
       \<lparr>leafSize = 20,
        ns = \<lparr>Naive = True, SingleMode = False, treeOwner = False,
              oldFromNewReferences = [],
              internals = \<lparr>n_rows = 2, cols = [[0, 0], [1, 0], [0, 1]]\<rparr>\<rparr>\<rparr>"
  using NeighborSearchLeaf_Train_builds_and_owns_tree
      [of "NeighborSearchLeaf_new echo_ops False False 20" echo_ops
          "\<lparr>n_rows = 2, cols = [[0, 0], [1, 0], [0, 1]]\<rparr>"]
    NeighborSearchLeaf_Train_builds_and_owns_tree
      [of "NeighborSearchLeaf_new echo_ops True False 20" echo_ops
          "\<lparr>n_rows = 2, cols = [[0, 0], [1, 0], [0, 1]]\<rparr>"]
  by (simp add: NeighborSearchLeaf_Train_def NeighborSearchLeaf_new_def echo_ops_def
      n_cols_def after_move_def empty_Mat_def)

text \<open>
  Three query points: in dual-tree mode the raw columns \<open>[0], [1], [2]\<close> arrive in
  columns \<open>2, 1, 0\<close>, in single mode the engine's columns are returned as they are, and
  an engine that rejects \<open>k\<close> makes the wrapper fail in the same way.
\<close>

theorem NeighborSearchLeaf_Search_witness:
  "\<not> Naive (ns (NeighborSearchLeaf_new echo_ops False False 20))
   \<and> \<not> SingleMode (ns (NeighborSearchLeaf_new echo_ops False False 20))
   \<and> snd (Tree_new echo_ops \<lparr>n_rows = 2, cols = [[0, 0], [1, 0], [0, 1]]\<rparr> 20) = [2, 1, 0]
   \<and> snd (NeighborSearchLeaf_Search echo_ops (\<lambda>i j. 7) (\<lambda>i j. 7)
          (NeighborSearchLeaf_new echo_ops False False 20)
          \<lparr>n_rows = 2, cols = [[0, 0], [1, 0], [0, 1]]\<rparr> 1) =
       Inr (\<lparr>n_rows = 1, cols = [[2], [1], [0]]\<rparr>,
            \<lparr>n_rows = 2, cols = [[0, 0], [1, 0], [0, 1]]\<rparr>)
   \<and> SingleMode (ns (NeighborSearchLeaf_new echo_ops False True 20))
   \<and> snd (NeighborSearchLeaf_Search echo_ops (\<lambda>i j. 7) (\<lambda>i j. 7)
          (NeighborSearchLeaf_new echo_ops False True 20)
          \<lparr>n_rows = 2, cols = [[0, 0], [1, 0], [0, 1]]\<rparr> 1) =
       Inr (\<lparr>n_rows = 1, cols = [[0], [1], [2]]\<rparr>,
            \<lparr>n_rows = 2, cols = [[0, 0], [1, 0], [0, 1]]\<rparr>)
   \<and> snd (NeighborSearchLeaf_Search
          (echo_ops\<lparr>Search_tree := \<lambda>s t k sameSet. Inl (invalid_argument ''k'')\<rparr>)
          (\<lambda>i j. 7) (\<lambda>i j. 7) (NeighborSearchLeaf_new echo_ops False False 20)
          \<lparr>n_rows = 2, cols = [[0, 0], [1, 0], [0, 1]]\<rparr> 4) =
       Inl (invalid_argument ''k'')"
  using NeighborSearchLeaf_Search_unmaps_queries
      [of "NeighborSearchLeaf_new echo_ops False False 20" echo_ops
          "\<lparr>n_rows = 2, cols = [[0, 0], [1, 0], [0, 1]]\<rparr>" 1 "\<lambda>i j. 7" "\<lambda>i j. 7"]
    NeighborSearchLeaf_Search_unmaps_queries
      [of "NeighborSearchLeaf_new echo_ops False True 20" echo_ops
          "\<lparr>n_rows = 2, cols = [[0, 0], [1, 0], [0, 1]]\<rparr>" 1 "\<lambda>i j. 7" "\<lambda>i j. 7"]
    NeighborSearchLeaf_Search_unmaps_queries
      [of "NeighborSearchLeaf_new echo_ops False False 20"
          "echo_ops\<lparr>Search_tree := \<lambda>s t k sameSet. Inl (invalid_argument ''k'')\<rparr>"
          "\<lparr>n_rows = 2, cols = [[0, 0], [1, 0], [0, 1]]\<rparr>" 4 "\<lambda>i j. 7" "\<lambda>i j. 7"]
  by (simp add: NeighborSearchLeaf_Search_def NeighborSearchLeaf_new_def echo_ops_def
      echo_search_def n_cols_def after_move_def set_size_def col_def set_col_def)

section \<open>The caller's query set\<close>

text \<open>
  The search on the store writes no matrix but the two outputs, and on every store it
  returns what the search on values returns.
\<close>

lemma unmap_at_frame:
  "qa \<noteq> da \<Longrightarrow> mats (snd (unmap_at old nOut dOut na da is s)) qa = mats s qa"
proof (induction "is" arbitrary: s)
  case Nil
  then show ?case by simp
next
  case (Cons i "is")
  show ?case
  proof (cases "i < length old \<and> i < n_cols nOut \<and> old ! i < n_cols (imats s na)
                \<and> i < n_cols dOut \<and> old ! i < n_cols (mats s da)")
    case True
    let ?s1 = "s\<lparr>imats := (imats s)(na := (imats s na)\<lparr>cols := (cols (imats s na))[old ! i := cols nOut ! i]\<rparr>)\<rparr>"
    let ?s2 = "?s1\<lparr>mats := (mats ?s1)(da := (mats ?s1 da)\<lparr>cols := (cols (mats ?s1 da))[old ! i := cols dOut ! i]\<rparr>)\<rparr>"
    from True have "unmap_at old nOut dOut na da (i # is) s = unmap_at old nOut dOut na da is ?s2"
      by (simp add: col_def set_col_def Let_def)
    moreover have "mats (snd (unmap_at old nOut dOut na da is ?s2)) qa = mats ?s2 qa"
      by (rule Cons.IH [OF Cons.prems])
    ultimately show ?thesis using Cons.prems by simp
  next
    case False
    then show ?thesis
      by (auto simp: col_def set_col_def Let_def)
  qed
qed

lemma unmap_at_unmap:
  "unmap old nOut dOut is (imats s na, mats s da) = Inr (nb, ds) \<Longrightarrow>
     unmap_at old nOut dOut na da is s =
       (None, s\<lparr>imats := (imats s)(na := nb), mats := (mats s)(da := ds)\<rparr>)"
proof (induction "is" arbitrary: s)
  case Nil
  then have "nb = imats s na" "ds = mats s da" by simp_all
  then show ?case by simp
next
  case (Cons i "is")
  from Cons.prems obtain nb1 ds1 where i: "i < length old"
    and c1: "col nOut i = Inr (cols nOut ! i)"
    and w1: "set_col (imats s na) (old ! i) (cols nOut ! i) = Inr nb1"
    and c2: "col dOut i = Inr (cols dOut ! i)"
    and w2: "set_col (mats s da) (old ! i) (cols dOut ! i) = Inr ds1"
    and rest: "unmap old nOut dOut is (nb1, ds1) = Inr (nb, ds)"
    by (auto simp: col_def split: if_splits sum.splits)
  let ?s2 = "s\<lparr>imats := (imats s)(na := nb1), mats := (mats s)(da := ds1)\<rparr>"
  have step: "unmap_at old nOut dOut na da (i # is) s = unmap_at old nOut dOut na da is ?s2"
    using i c1 w1 c2 w2 by (simp add: Let_def)
  have "unmap old nOut dOut is (imats ?s2 na, mats ?s2 da) = Inr (nb, ds)"
    using rest by simp
  from Cons.IH [OF this]
  have "unmap_at old nOut dOut na da is ?s2 =
          (None, ?s2\<lparr>imats := (imats ?s2)(na := nb), mats := (mats ?s2)(da := ds)\<rparr>)" .
  moreover have "?s2\<lparr>imats := (imats ?s2)(na := nb), mats := (mats ?s2)(da := ds)\<rparr> =
                   s\<lparr>imats := (imats s)(na := nb), mats := (mats s)(da := ds)\<rparr>"
    by (intro store.equality) (simp_all add: fun_eq_iff)
  ultimately show ?case
    unfolding step by (simp only:)
qed

lemma NeighborSearchLeaf_Search_at_results:
  assumes "snd (NeighborSearchLeaf_Search ops fn fd l (mats s qa) k) = Inr (nb, ds)"
  shows "NeighborSearchLeaf_Search_at ops fn fd l qa k na da s =
           (None, s\<lparr>imats := (imats s)(na := nb), mats := (mats s)(da := ds)\<rparr>)"
proof (cases "\<not> Naive (ns l) \<and> \<not> SingleMode (ns l)")
  case False
  with assms show ?thesis
    by (auto simp: NeighborSearchLeaf_Search_def NeighborSearchLeaf_Search_at_def)
next
  case True
  obtain queryTree old where t: "Tree_new ops (mats s qa) (leafSize l) = (queryTree, old)"
    by (cases "Tree_new ops (mats s qa) (leafSize l)")
  from assms True t obtain nOut dOut where
    r: "Search_tree ops (ns l) queryTree k False = Inr (nOut, dOut)"
    and u: "unmap old nOut dOut [0..<n_cols nOut]
              (set_size fn (n_rows nOut) (n_cols nOut), set_size fd (n_rows dOut) (n_cols dOut)) =
            Inr (nb, ds)"
    by (auto simp: NeighborSearchLeaf_Search_def Let_def split: sum.splits)
  let ?s2 = "s\<lparr>mats := (mats s)(da := set_size fd (n_rows dOut) (n_cols dOut)),
               imats := (imats s)(na := set_size fn (n_rows nOut) (n_cols nOut))\<rparr>"
  have "unmap old nOut dOut [0..<n_cols nOut] (imats ?s2 na, mats ?s2 da) = Inr (nb, ds)"
    using u by simp
  from unmap_at_unmap [OF this]
  have "unmap_at old nOut dOut na da [0..<n_cols nOut] ?s2 =
          (None, s\<lparr>imats := (imats s)(na := nb), mats := (mats s)(da := ds)\<rparr>)"
    by simp
  then show ?thesis
    using True t r by (simp add: NeighborSearchLeaf_Search_at_def Let_def after_move_def)
qed

text \<open>
  Claim C9. After \<^verbatim>\<open>NeighborSearchLeaf::Search(querySet, k, neighbors, distances)\<close>
  the caller's \<^verbatim>\<open>querySet\<close> is what it was before, in every mode and whether the call
  returns or throws, provided that \<^verbatim>\<open>querySet\<close> and \<^verbatim>\<open>distances\<close> are not the same
  object: \<^verbatim>\<open>std::move\<close> on the \<^verbatim>\<open>const\<close> reference makes the tree constructor copy, and
  the only matrices written are the two outputs. Moreover, when the search on values
  returns, the search on the store returns too and leaves these values at the two
  output addresses. The statement does not hold when \<^verbatim>\<open>querySet\<close> is \<^verbatim>\<open>distances\<close>.
\<close>

theorem NeighborSearchLeaf_Search_at_keeps_querySet:
  "(qa \<noteq> da \<longrightarrow>
      mats (snd (NeighborSearchLeaf_Search_at ops fn fd l qa k na da s)) qa = mats s qa)
   \<and> (\<forall>nb ds. snd (NeighborSearchLeaf_Search ops fn fd l (mats s qa) k) = Inr (nb, ds) \<longrightarrow>
        NeighborSearchLeaf_Search_at ops fn fd l qa k na da s =
          (None, s\<lparr>imats := (imats s)(na := nb), mats := (mats s)(da := ds)\<rparr>))"
proof (intro conjI impI allI)
  assume d: "qa \<noteq> da"
  show "mats (snd (NeighborSearchLeaf_Search_at ops fn fd l qa k na da s)) qa = mats s qa"
  proof (cases "\<not> Naive (ns l) \<and> \<not> SingleMode (ns l)")
    case False
    with d show ?thesis
      by (auto simp: NeighborSearchLeaf_Search_at_def split: sum.splits)
  next
    case True
    with d show ?thesis
      by (auto simp: NeighborSearchLeaf_Search_at_def Let_def after_move_def unmap_at_frame
          split: sum.splits prod.splits)
  qed
next
  fix nb :: "nat Mat" and ds :: "real Mat"
  assume "snd (NeighborSearchLeaf_Search ops fn fd l (mats s qa) k) = Inr (nb, ds)"
  then show "NeighborSearchLeaf_Search_at ops fn fd l qa k na da s =
          (None, s\<lparr>imats := (imats s)(na := nb), mats := (mats s)(da := ds)\<rparr>)"
    by (rule NeighborSearchLeaf_Search_at_results)
qed

text \<open>
  The same matrix passed as \<^verbatim>\<open>querySet\<close> and as \<^verbatim>\<open>distances\<close>, in dual-tree mode: the
  call returns, and the three points of the query set have become the row of distances.
\<close>

theorem NeighborSearchLeaf_Search_at_aliased_counterexample:
  "mats points_store 0 = \<lparr>n_rows = 2, cols = [[0, 0], [1, 0], [0, 1]]\<rparr>
   \<and> fst (NeighborSearchLeaf_Search_at fixed_answer_ops junk_nat junk_real
          (NeighborSearchLeaf_new fixed_answer_ops False False 20) 0 1 0 0 points_store) = None
   \<and> mats (snd (NeighborSearchLeaf_Search_at fixed_answer_ops junk_nat junk_real
          (NeighborSearchLeaf_new fixed_answer_ops False False 20) 0 1 0 0 points_store)) 0 =
       \<lparr>n_rows = 1, cols = [[0], [1], [1]]\<rparr>"
  by (simp add: NeighborSearchLeaf_Search_at_def NeighborSearchLeaf_new_def fixed_answer_ops_def
      echo_ops_def points_store_def three_points_def n_cols_def after_move_def set_size_def
      col_def set_col_def Let_def)

text \<open>
  The same call with the query set at address \<open>1\<close> and the distances at address \<open>0\<close>.
\<close>

theorem NeighborSearchLeaf_Search_at_witness:
  "(1 :: nat) \<noteq> 0
   \<and> mats (snd (NeighborSearchLeaf_Search_at fixed_answer_ops junk_nat junk_real
          (NeighborSearchLeaf_new fixed_answer_ops False False 20) 1 1 0 0 points_store)) 1 =
       \<lparr>n_rows = 2, cols = [[0, 0], [1, 0], [0, 1]]\<rparr>
   \<and> mats (snd (NeighborSearchLeaf_Search_at fixed_answer_ops junk_nat junk_real
          (NeighborSearchLeaf_new fixed_answer_ops False False 20) 1 1 0 0 points_store)) 0 =
       \<lparr>n_rows = 1, cols = [[0], [1], [1]]\<rparr>
   \<and> imats (snd (NeighborSearchLeaf_Search_at fixed_answer_ops junk_nat junk_real
          (NeighborSearchLeaf_new fixed_answer_ops False False 20) 1 1 0 0 points_store)) 0 =
       \<lparr>n_rows = 1, cols = [[2], [1], [0]]\<rparr>"
proof -
  have v: "snd (NeighborSearchLeaf_Search fixed_answer_ops junk_nat junk_real
          (NeighborSearchLeaf_new fixed_answer_ops False False 20) (mats points_store 1) 1) =
        Inr (\<lparr>n_rows = 1, cols = [[2], [1], [0]]\<rparr>, \<lparr>n_rows = 1, cols = [[0], [1], [1]]\<rparr>)"
    by (simp add: NeighborSearchLeaf_Search_def NeighborSearchLeaf_new_def fixed_answer_ops_def
      echo_ops_def points_store_def three_points_def n_cols_def after_move_def set_size_def
      col_def set_col_def Let_def)
  from NeighborSearchLeaf_Search_at_keeps_querySet
      [of 1 0 fixed_answer_ops junk_nat junk_real
          "NeighborSearchLeaf_new fixed_answer_ops False False 20" 1 0 points_store] v
  show ?thesis
    by (simp add: points_store_def three_points_def)
qed

section \<open>Properties of SpillSearch\<close>

text \<open>
  Claim C2. \<^verbatim>\<open>SpillSearch::Search\<close> with a query set, in dual-tree mode, searches
  with a query tree built from the query set with overlap \<open>0\<close>; in naive or single
  mode it hands the query set to the engine; in no mode does the result depend on the
  \<open>tau\<close> of the object. The self-search with \<open>tau \<noteq> 0\<close> in dual-tree mode builds a
  tree with overlap \<open>0\<close> from the engine's reference set and searches with it (telling
  the engine that both sets are the same); with \<open>tau = 0\<close>, or in naive or single
  mode, it is the engine's self-search.
\<close>

theorem SpillSearch_Search_query_tree_without_overlap:
  "(\<not> Naive (neighborSearch s) \<and> \<not> SingleMode (neighborSearch s) \<longrightarrow>
      SpillSearch_Search ops s querySet k =
        Search_tree ops (neighborSearch s) (SpillTree_new ops querySet 0) k False)
   \<and> (Naive (neighborSearch s) \<or> SingleMode (neighborSearch s) \<longrightarrow>
      SpillSearch_Search ops s querySet k = Search_set ops (neighborSearch s) querySet k)
   \<and> (\<forall>t. SpillSearch_Search ops (s\<lparr>tau := t\<rparr>) querySet k = SpillSearch_Search ops s querySet k)
   \<and> (tau s \<noteq> 0 \<and> \<not> Naive (neighborSearch s) \<and> \<not> SingleMode (neighborSearch s) \<longrightarrow>
      SpillSearch_Search_self ops s k =
        Search_tree ops (neighborSearch s)
          (SpillTree_new ops (ReferenceSet ops (neighborSearch s)) 0) k True)
   \<and> (tau s = 0 \<or> Naive (neighborSearch s) \<or> SingleMode (neighborSearch s) \<longrightarrow>
      SpillSearch_Search_self ops s k = Search_self ops (neighborSearch s) k)"
  by (auto simp: SpillSearch_Search_def SpillSearch_Search_self_def Let_def)

text \<open>
  An object trained on three points with \<open>tau = 1/2\<close>, in dual-tree mode and in single
  mode: the query trees carry the overlap \<open>0\<close>.
\<close>

theorem SpillSearch_Search_witness:
  "\<not> Naive (neighborSearch (spill_on_three False))
   \<and> \<not> SingleMode (neighborSearch (spill_on_three False))
   \<and> tau (spill_on_three False) \<noteq> 0
   \<and> SpillSearch_Search echo_spill_ops (spill_on_three False)
         \<lparr>n_rows = 1, cols = [[5], [6]]\<rparr> 1 =
       Search_tree echo_spill_ops (neighborSearch (spill_on_three False))
         (\<lparr>n_rows = 1, cols = [[6], [5]]\<rparr>, 0) 1 False
   \<and> SpillSearch_Search_self echo_spill_ops (spill_on_three False) 1 =
       Search_tree echo_spill_ops (neighborSearch (spill_on_three False))
         (\<lparr>n_rows = 1, cols = [[1], [2], [3]]\<rparr>, 0) 1 True
   \<and> SingleMode (neighborSearch (spill_on_three True))
   \<and> SpillSearch_Search echo_spill_ops (spill_on_three True)
         \<lparr>n_rows = 1, cols = [[5], [6]]\<rparr> 1 =
       Inr (\<lparr>n_rows = 1, cols = [[0], [1]]\<rparr>, \<lparr>n_rows = 1, cols = [[5], [6]]\<rparr>)
   \<and> SpillSearch_Search_self echo_spill_ops (spill_on_three True) 1 =
       Inr (\<lparr>n_rows = 1, cols = [[0], [1], [2]]\<rparr>,
            \<lparr>n_rows = 1, cols = [[3], [2], [1]]\<rparr>)"
  using SpillSearch_Search_query_tree_without_overlap
      [of "spill_on_three False" echo_spill_ops "\<lparr>n_rows = 1, cols = [[5], [6]]\<rparr>" 1]
    SpillSearch_Search_query_tree_without_overlap
      [of "spill_on_three True" echo_spill_ops "\<lparr>n_rows = 1, cols = [[5], [6]]\<rparr>" 1]
  by (simp add: echo_spill_ops_def echo_search_def n_cols_def spill_on_three_def)

text \<open>
  Claim C4. Each of the four constructors of \<^verbatim>\<open>SpillSearch\<close>, given \<open>tau < 0\<close>,
  throws \<^verbatim>\<open>std::invalid_argument\<close> when nothing but the construction of the engine
  member has happened: no tree has been built, the engine has not been trained, and
  the caller's reference set is what it was (also for the constructor that takes it by
  rvalue reference). Given \<open>0 \<le> tau\<close> the constructor returns the object, after the
  steps of the \<^verbatim>\<open>Train\<close> it calls: with reference data and not in naive mode, a tree
  built from the reference set with the overlap \<open>tau\<close> and then the training of the
  engine on it; in naive mode the training on the set; the constructor that takes the
  set by rvalue reference leaves the caller's matrix empty.
\<close>

theorem SpillSearch_new_checks_tau:
  "(t < 0 \<longrightarrow>
      SpillSearch_new_ref ops referenceSetIn naive singleMode t epsilon metric =
        (Inl (invalid_argument ''tau must be non-negative''), referenceSetIn,
         [Constructed_engine])
    \<and> SpillSearch_new_move ops referenceSetIn naive singleMode t epsilon metric =
        (Inl (invalid_argument ''tau must be non-negative''), referenceSetIn,
         [Constructed_engine])
    \<and> SpillSearch_new_tree ops referenceTree singleMode t epsilon metric =
        (Inl (invalid_argument ''tau must be non-negative''), [Constructed_engine])
    \<and> SpillSearch_new_empty ops naive singleMode t epsilon metric =
        (Inl (invalid_argument ''tau must be non-negative''), [Constructed_engine]))
   \<and> (0 \<le> t \<longrightarrow>
      SpillSearch_new_ref ops referenceSetIn naive singleMode t epsilon metric =
        (Inr (fst (SpillSearch_Train_ref ops
                \<lparr>neighborSearch = Spill_NeighborSearch_new ops naive singleMode epsilon metric,
                 tau = t\<rparr> referenceSetIn)),
         referenceSetIn,
         Constructed_engine # snd (SpillSearch_Train_ref ops
                \<lparr>neighborSearch = Spill_NeighborSearch_new ops naive singleMode epsilon metric,
                 tau = t\<rparr> referenceSetIn))
    \<and> SpillSearch_new_move ops referenceSetIn naive singleMode t epsilon metric =
        (Inr (fst (SpillSearch_Train ops
                \<lparr>neighborSearch = Spill_NeighborSearch_new ops naive singleMode epsilon metric,
                 tau = t\<rparr> referenceSetIn)),
         empty_Mat,
         Constructed_engine # snd (snd (SpillSearch_Train ops
                \<lparr>neighborSearch = Spill_NeighborSearch_new ops naive singleMode epsilon metric,
                 tau = t\<rparr> referenceSetIn)))
    \<and> SpillSearch_new_tree ops referenceTree singleMode t epsilon metric =
        (Inr (fst (SpillSearch_Train_tree ops
                \<lparr>neighborSearch = Spill_NeighborSearch_new_single ops singleMode epsilon metric,
                 tau = t\<rparr> referenceTree)),
         [Constructed_engine, Trained_on_tree])
    \<and> SpillSearch_new_empty ops naive singleMode t epsilon metric =
        (Inr \<lparr>neighborSearch = Spill_NeighborSearch_new ops naive singleMode epsilon metric,
              tau = t\<rparr>,
         [Constructed_engine]))
   \<and> snd (SpillSearch_Train_ref ops s referenceSetIn) =
       (if Naive (neighborSearch s) then [Trained_on_set referenceSetIn]
        else [Built_tree referenceSetIn (tau s), Trained_on_tree])
   \<and> snd (snd (SpillSearch_Train ops s referenceSetIn)) =
       (if Naive (neighborSearch s) then [Trained_on_set referenceSetIn]
        else [Built_tree referenceSetIn (tau s), Trained_on_tree])"
  by (simp add: SpillSearch_new_ref_def SpillSearch_new_move_def SpillSearch_new_tree_def
      SpillSearch_new_empty_def SpillSearch_Train_ref_def SpillSearch_Train_def
      SpillSearch_Train_tree_def after_move_def Let_def case_prod_beta)

text \<open>
  The constructor that takes the reference set by rvalue reference, on three points,
  with \<open>tau = -1\<close> and with \<open>tau = 1/2\<close>.
\<close>

theorem SpillSearch_new_witness:
  "(- 1 :: real) < 0
   \<and> SpillSearch_new_move echo_spill_ops \<lparr>n_rows = 1, cols = [[1], [2], [3]]\<rparr>
         False False (- 1) 0 () =
       (Inl (invalid_argument ''tau must be non-negative''),
        \<lparr>n_rows = 1, cols = [[1], [2], [3]]\<rparr>, [Constructed_engine])
   \<and> (0 :: real) \<le> 1 / 2
   \<and> SpillSearch_new_move echo_spill_ops \<lparr>n_rows = 1, cols = [[1], [2], [3]]\<rparr>
         False False (1 / 2) 0 () =
       (Inr (spill_on_three False), \<lparr>n_rows = 0, cols = []\<rparr>,
        [Constructed_engine, Built_tree \<lparr>n_rows = 1, cols = [[1], [2], [3]]\<rparr> (1 / 2),
         Trained_on_tree])"
  using SpillSearch_new_checks_tau
      [of "- 1" echo_spill_ops "\<lparr>n_rows = 1, cols = [[1], [2], [3]]\<rparr>" False False 0 "()"]
    SpillSearch_new_checks_tau
      [of "1 / 2" echo_spill_ops "\<lparr>n_rows = 1, cols = [[1], [2], [3]]\<rparr>" False False 0 "()"]
  by (simp add: SpillSearch_Train_def echo_spill_ops_def Let_def spill_on_three_def
      after_move_def empty_Mat_def)

section \<open>Properties of the model without an engine\<close>

text \<open>
  Claim C3. On a model without an engine, \<^verbatim>\<open>Search\<close> with a query set, the self-search,
  \<^verbatim>\<open>Dataset\<close>, \<^verbatim>\<open>Naive\<close> and \<^verbatim>\<open>SingleMode\<close> all fail. The self-search and the three
  accessors throw \<^verbatim>\<open>std::runtime_error\<close> with the message
  \<^verbatim>\<open>no neighbor search model initialized\<close>. \<^verbatim>\<open>Search\<close> with a query set throws it when
  \<^verbatim>\<open>randomBasis\<close> is off or \<open>q\<close> has as many columns as the query set has rows. With
  \<^verbatim>\<open>randomBasis\<close> on and sizes that differ, the product \<^verbatim>\<open>q * querySet\<close>, which comes
  before the test of the engine pointer, throws \<^verbatim>\<open>std::logic_error\<close> instead. A model
  that has just been constructed has no engine and an empty \<open>q\<close>.
\<close>

theorem NSModel_without_engine_fails:
  "(nSearch m = None \<longrightarrow>
      (\<exists>e. snd (NSModel_Search ops A fn fd m querySet k) = Inl e)
    \<and> NSModel_Search_self ops m k = Inl (runtime_error ''no neighbor search model initialized'')
    \<and> NSModel_Dataset ops m = Inl (runtime_error ''no neighbor search model initialized'')
    \<and> NSModel_Naive m = Inl (runtime_error ''no neighbor search model initialized'')
    \<and> NSModel_SingleMode m = Inl (runtime_error ''no neighbor search model initialized''))
   \<and> (nSearch m = None \<and> (randomBasis m \<longrightarrow> n_cols (q m) = n_rows querySet) \<longrightarrow>
      snd (NSModel_Search ops A fn fd m querySet k) =
        Inl (runtime_error ''no neighbor search model initialized''))
   \<and> (randomBasis m \<and> n_cols (q m) \<noteq> n_rows querySet \<longrightarrow>
      snd (NSModel_Search ops A fn fd m querySet k) =
        Inl (logic_error ''matrix multiplication: incompatible matrix dimensions''))
   \<and> nSearch (NSModel_new t rb :: 'e NSModel) = None
   \<and> q (NSModel_new t rb :: 'e NSModel) = empty_Mat"
  by (simp add: NSModel_Search_def NSModel_Search_self_def NSModel_Dataset_def
      NSModel_Naive_def NSModel_SingleMode_def NSModel_new_def Mat_times_def)

text \<open>
  A model for ball trees that has never been built, and a query set of two points on
  the line: with \<^verbatim>\<open>randomBasis\<close> the search throws \<^verbatim>\<open>std::logic_error\<close>, without it
  \<^verbatim>\<open>std::runtime_error\<close>.
\<close>

theorem NSModel_without_engine_witness:
  "nSearch (NSModel_new BALL_TREE True :: real Mat NSModel) = None
   \<and> randomBasis (NSModel_new BALL_TREE True :: real Mat NSModel)
   \<and> n_cols (q (NSModel_new BALL_TREE True :: real Mat NSModel)) \<noteq>
       n_rows \<lparr>n_rows = 1, cols = [[4 :: real], [5]]\<rparr>
   \<and> snd (NSModel_Search echo_all small_arma junk_nat junk_real (NSModel_new BALL_TREE True)
          \<lparr>n_rows = 1, cols = [[4], [5]]\<rparr> 1) =
       Inl (logic_error ''matrix multiplication: incompatible matrix dimensions'')
   \<and> snd (NSModel_Search echo_all small_arma junk_nat junk_real (NSModel_new BALL_TREE False)
          \<lparr>n_rows = 1, cols = [[4], [5]]\<rparr> 1) =
       Inl (runtime_error ''no neighbor search model initialized'')
   \<and> NSModel_Search_self echo_all (NSModel_new BALL_TREE True) 1 =
       Inl (runtime_error ''no neighbor search model initialized'')
   \<and> NSModel_Dataset echo_all (NSModel_new BALL_TREE True) =
       Inl (runtime_error ''no neighbor search model initialized'')"
  using NSModel_without_engine_fails
      [of "NSModel_new BALL_TREE True" echo_all small_arma junk_nat junk_real
          "\<lparr>n_rows = 1, cols = [[4], [5]]\<rparr>" 1 BALL_TREE True]
    NSModel_without_engine_fails
      [of "NSModel_new BALL_TREE False" echo_all small_arma junk_nat junk_real
          "\<lparr>n_rows = 1, cols = [[4], [5]]\<rparr>" 1 BALL_TREE False]
  by (simp add: NSModel_new_def n_cols_def empty_Mat_def)




section \<open>Properties of the random basis\<close>













section \<open>Ownership of the engine, and serialization\<close>






lemma Serialize_load:
  assumes "is_loading ar"
  shows "NSModel_Serialize P h m ar =
    (case ar_child ar of
       None \<Rightarrow>
         (None, (case nSearch m of Some (p, old) \<Rightarrow> delete_obj p h | None \<Rightarrow> h),
          m\<lparr>treeType := ar_treeType ar, randomBasis := ar_randomBasis ar, q := ar_q ar,
            nSearch := None\<rparr>, ar)
     | Some x \<Rightarrow>
        (case read_child P (ar_treeType ar) x of
           Inl e \<Rightarrow>
             (Some e, (case nSearch m of Some (p, old) \<Rightarrow> delete_obj p h | None \<Rightarrow> h),
              m\<lparr>treeType := ar_treeType ar, randomBasis := ar_randomBasis ar, q := ar_q ar,
                nSearch := None\<rparr>, ar)
         | Inr child \<Rightarrow>
             (None,
              (case nSearch m of Some (p, old) \<Rightarrow> delete_obj p h | None \<Rightarrow> h)
                \<lparr>allocated := Suc (allocated h)\<rparr>,
              m\<lparr>treeType := ar_treeType ar, randomBasis := ar_randomBasis ar, q := ar_q ar,
                nSearch := Some (allocated h, child)\<rparr>, ar)))"
proof -
  show ?thesis
    using assms
    by (simp add: NSModel_Serialize_def Let_def new_obj_def delete_obj_def
        split: option.splits sum.splits)
qed






text \<open>
  Claim C5. \<^verbatim>\<open>NSModel::Serialize\<close>, when loading, makes no test of the class of the
  engine in the archive: it releases the engine held, reads the engine through the
  pointer type that the discriminant read from the archive selects, and what it throws
  is what the archive library throws when reading through that type. So whenever the
  library reads the engine data through that type, the call returns with an engine of
  the class of the discriminant, whatever the class of the engine that was written.
\<close>

theorem NSModel_Serialize_makes_no_class_check:
  "(is_loading ar \<and> ar_child ar = Some x \<and> read_child P (ar_treeType ar) x = Inr child \<longrightarrow>
      NSModel_Serialize P h m ar =
        (None,
         h\<lparr>allocated := Suc (allocated h),
           released := released h @ (case nSearch m of Some (p, old) \<Rightarrow> [p] | None \<Rightarrow> [])\<rparr>,
         m\<lparr>treeType := ar_treeType ar, randomBasis := ar_randomBasis ar, q := ar_q ar,
           nSearch := Some (allocated h, child)\<rparr>,
         ar))
   \<and> (is_loading ar \<and> ar_child ar = Some x \<and> read_child P (ar_treeType ar) x = Inl e \<longrightarrow>
      NSModel_Serialize P h m ar =
        (Some e,
         h\<lparr>released := released h @ (case nSearch m of Some (p, old) \<Rightarrow> [p] | None \<Rightarrow> [])\<rparr>,
         m\<lparr>treeType := ar_treeType ar, randomBasis := ar_randomBasis ar, q := ar_q ar,
           nSearch := None\<rparr>,
         ar))
   \<and> (is_loading ar \<and> ar_child ar = None \<longrightarrow>
      NSModel_Serialize P h m ar =
        (None,
         h\<lparr>released := released h @ (case nSearch m of Some (p, old) \<Rightarrow> [p] | None \<Rightarrow> [])\<rparr>,
         m\<lparr>treeType := ar_treeType ar, randomBasis := ar_randomBasis ar, q := ar_q ar,
           nSearch := None\<rparr>,
         ar))
   \<and> read_child P tt x =
       (if tt = KD_TREE \<or> tt = BALL_TREE
        then (case read_NSLeaf P tt x of Inl e \<Rightarrow> Inl e | Inr l \<Rightarrow> Inr (NSLeaf tt l))
        else (case read_NSType P tt x of Inl e \<Rightarrow> Inl e | Inr n \<Rightarrow> Inr (NSType tt n)))"
proof (intro conjI impI)
  have rel: "(case nSearch m of Some (p, old) \<Rightarrow> delete_obj p h | None \<Rightarrow> h) =
               h\<lparr>released := released h @ (case nSearch m of Some (p, old) \<Rightarrow> [p] | None \<Rightarrow> [])\<rparr>"
    by (simp add: delete_obj_def split: option.splits)
  {
    assume "is_loading ar \<and> ar_child ar = Some x \<and> read_child P (ar_treeType ar) x = Inr child"
    then show "NSModel_Serialize P h m ar =
        (None,
         h\<lparr>allocated := Suc (allocated h),
           released := released h @ (case nSearch m of Some (p, old) \<Rightarrow> [p] | None \<Rightarrow> [])\<rparr>,
         m\<lparr>treeType := ar_treeType ar, randomBasis := ar_randomBasis ar, q := ar_q ar,
           nSearch := Some (allocated h, child)\<rparr>,
         ar)"
      by (simp add: Serialize_load rel)
  }
  {
    assume "is_loading ar \<and> ar_child ar = Some x \<and> read_child P (ar_treeType ar) x = Inl e"
    then show "NSModel_Serialize P h m ar =
        (Some e,
         h\<lparr>released := released h @ (case nSearch m of Some (p, old) \<Rightarrow> [p] | None \<Rightarrow> [])\<rparr>,
         m\<lparr>treeType := ar_treeType ar, randomBasis := ar_randomBasis ar, q := ar_q ar,
           nSearch := None\<rparr>,
         ar)"
      by (simp add: Serialize_load rel)
  }
  {
    assume "is_loading ar \<and> ar_child ar = None"
    then show "NSModel_Serialize P h m ar =
        (None,
         h\<lparr>released := released h @ (case nSearch m of Some (p, old) \<Rightarrow> [p] | None \<Rightarrow> [])\<rparr>,
         m\<lparr>treeType := ar_treeType ar, randomBasis := ar_randomBasis ar, q := ar_q ar,
           nSearch := None\<rparr>,
         ar)"
      by (simp add: Serialize_load rel)
  }
  show "read_child P tt x =
       (if tt = KD_TREE \<or> tt = BALL_TREE
        then (case read_NSLeaf P tt x of Inl e \<Rightarrow> Inl e | Inr l \<Rightarrow> Inr (NSLeaf tt l))
        else (case read_NSType P tt x of Inl e \<Rightarrow> Inl e | Inr n \<Rightarrow> Inr (NSType tt n)))"
    by (cases tt; hypsubst; simp)
qed

text \<open>
  With an archive format that keeps no record of the class: the archive has the
  discriminant \<open>COVER_TREE\<close> and the data of a leaf wrapper over a kd-tree; the load
  returns and the model holds a plain search for cover trees made of these data.
\<close>

theorem NSModel_Serialize_reads_engine_of_other_class:
  "is_loading kd_engine_in_cover_archive
   \<and> ar_treeType kd_engine_in_cover_archive = COVER_TREE
   \<and> ar_child kd_engine_in_cover_archive =
       Some (write_NSLeaf plain_archive KD_TREE (NeighborSearchLeaf_new echo_ops False False 20))
   \<and> read_child plain_archive COVER_TREE
         (write_NSLeaf plain_archive KD_TREE (NeighborSearchLeaf_new echo_ops False False 20)) =
       Inr (NSType COVER_TREE (ns (NeighborSearchLeaf_new echo_ops False False 20)))
   \<and> NSModel_Serialize plain_archive empty_heap (NSModel_new KD_TREE False)
         kd_engine_in_cover_archive =
       (None, \<lparr>allocated = 1, released = []\<rparr>,
        \<lparr>treeType = COVER_TREE, randomBasis = False, q = empty_Mat,
         nSearch = Some (0, NSType COVER_TREE (ns (NeighborSearchLeaf_new echo_ops False False 20)))\<rparr>,
        kd_engine_in_cover_archive)"
proof -
  have a: "is_loading kd_engine_in_cover_archive
      \<and> ar_child kd_engine_in_cover_archive =
          Some (write_NSLeaf plain_archive KD_TREE (NeighborSearchLeaf_new echo_ops False False 20))
      \<and> ar_treeType kd_engine_in_cover_archive = COVER_TREE
      \<and> ar_randomBasis kd_engine_in_cover_archive = False
      \<and> ar_q kd_engine_in_cover_archive = empty_Mat"
    by (simp add: kd_engine_in_cover_archive_def)
  have r: "read_child plain_archive COVER_TREE
         (write_NSLeaf plain_archive KD_TREE (NeighborSearchLeaf_new echo_ops False False 20)) =
       Inr (NSType COVER_TREE (ns (NeighborSearchLeaf_new echo_ops False False 20)))"
    by (simp add: plain_archive_def)
  from NSModel_Serialize_makes_no_class_check
      [where ar = kd_engine_in_cover_archive and P = plain_archive
         and x = "write_NSLeaf plain_archive KD_TREE (NeighborSearchLeaf_new echo_ops False False 20)"
         and child = "NSType COVER_TREE (ns (NeighborSearchLeaf_new echo_ops False False 20))"
         and h = empty_heap and m = "NSModel_new KD_TREE False"] a r
  have "NSModel_Serialize plain_archive empty_heap (NSModel_new KD_TREE False)
         kd_engine_in_cover_archive =
       (None, \<lparr>allocated = 1, released = []\<rparr>,
        \<lparr>treeType = COVER_TREE, randomBasis = False, q = empty_Mat,
         nSearch = Some (0, NSType COVER_TREE (ns (NeighborSearchLeaf_new echo_ops False False 20)))\<rparr>,
        kd_engine_in_cover_archive)"
    by (simp add: empty_heap_def NSModel_new_def)
  with a r show ?thesis by simp
qed

end
